theory Spec2Isabelle
  imports Main
begin

section \<open>The Windows toast notification service (widget/windows/ToastNotification.cpp)\<close>

subsection \<open>Result codes\<close>

text \<open>
  Modelled from the spec: the \<open>nsresult\<close> codes and the macro \<open>NS_FAILED\<close> are declared in
  headers that are not part of the source file. The spec's error taxonomy names
  \<open>NotImplemented\<close>, \<open>InvalidArgument\<close> and generic failures; the codes the
  source file itself writes (\<open>NS_OK\<close>, \<open>NS_ERROR_NOT_IMPLEMENTED\<close>, \<open>NS_ERROR_FAILURE\<close>) and
  the one \<open>NS_ENSURE_ARG\<close> returns (\<open>NS_ERROR_INVALID_ARG\<close>) are constructors; every other
  failure code is \<open>NS_ERROR_OTHER n\<close> and every other success code is \<open>NS_SUCCESS_OTHER n\<close>.
\<close>

datatype nsresult =
    NS_OK
  | NS_ERROR_NOT_IMPLEMENTED
  | NS_ERROR_FAILURE
  | NS_ERROR_INVALID_ARG
  | NS_ERROR_OTHER nat
  | NS_SUCCESS_OTHER nat

fun NS_FAILED :: "nsresult \<Rightarrow> bool" where
  "NS_FAILED NS_OK = False"
| "NS_FAILED (NS_SUCCESS_OTHER n) = False"
| "NS_FAILED NS_ERROR_NOT_IMPLEMENTED = True"
| "NS_FAILED NS_ERROR_FAILURE = True"
| "NS_FAILED NS_ERROR_INVALID_ARG = True"
| "NS_FAILED (NS_ERROR_OTHER n) = True"

text \<open>
  Modelled from the spec: the macros \<open>MOZ_TRY\<close> and \<open>NS_ENSURE_ARG\<close> are defined outside
  the source file. Each getter may fail, and the first failure aborts the whole call:
  \<open>MOZ_TRY(expr)\<close> on an \<open>nsresult\<close> returns a failed code to the caller at once (with
  \<open>fail\<close>, what the caller's state and out-parameters are at that point); otherwise the
  function goes on with the value the getter wrote to its out-parameter. A null alert
  is an invalid argument: \<open>NS_ENSURE_ARG\<close> returns \<open>NS_ERROR_INVALID_ARG\<close> for it.
\<close>

definition MOZ_TRY :: "nsresult \<times> 'a \<Rightarrow> 's \<Rightarrow> ('a \<Rightarrow> nsresult \<times> 's) \<Rightarrow> nsresult \<times> 's" where
  "MOZ_TRY r fail k = (if NS_FAILED (fst r) then (fst r, fail) else k (snd r))"

subsection \<open>The alert source and the handler objects\<close>

text \<open>
  \<open>nsIAlertNotification\<close>: each getter returns a result code and writes its out-parameter.
  A pointer to an alert is an \<open>option\<close>, \<open>None\<close> the null pointer. Listeners
  (\<open>nsIObserver*\<close>) and actions are identified by a number.
\<close>

record nsIAlertNotification =
  GetCookie :: "nsresult \<times> string"
  GetName :: "nsresult \<times> string"
  GetTitle :: "nsresult \<times> string"
  GetText :: "nsresult \<times> string"
  GetTextClickable :: "nsresult \<times> bool"
  GetSource :: "nsresult \<times> string"
  GetRequireInteraction :: "nsresult \<times> bool"
  GetActions :: "nsresult \<times> nat list"
  GetImageURL :: "nsresult \<times> string"

text \<open>
  The arguments of the constructor of \<open>ToastNotificationHandler\<close>, in the order it takes
  them (the back-reference \<open>this\<close> to the one service is left out).
\<close>

record ToastNotificationHandler =
  mAlertListener :: "nat option"
  mName :: string
  mCookie :: string
  mTitle :: string
  mMsg :: string
  mHostPort :: string
  mClickable :: bool
  mRequireInteraction :: bool
  mActions :: "nat list"

text \<open>
  Handler objects have identity: a handler is the number \<open>new\<close> gave it. The service's
  observable behaviour is the sequence of its table mutations and of the calls it makes
  on its collaborators, in program order.
\<close>

datatype event =
    New_ToastNotificationHandler nat ToastNotificationHandler
  | Table_InsertOrUpdate string nat
  | Table_Remove string
  | Call_InitAlertAsync nat
  | Call_UnregisterHandler nat
  | Call_CreateToastXmlString nat string
  | Call_NewNamedThread string
  | Call_AddObserver string

subsection \<open>The table of active handlers\<close>

text \<open>
  Modelled from the spec: \<open>nsRefPtrHashtable\<close> is declared outside the source file. The
  spec's Handler Registry is a mapping from alert name to one handler with
  insert-or-update semantics (the last writer wins). The table is the list of its
  entries in iteration order.
\<close>

type_synonym table = "(string \<times> nat) list"

fun Get :: "table \<Rightarrow> string \<Rightarrow> nat option" where
  "Get [] k = None"
| "Get ((k', v) # t) k = (if k' = k then Some v else Get t k)"

fun InsertOrUpdate :: "string \<Rightarrow> nat \<Rightarrow> table \<Rightarrow> table" where
  "InsertOrUpdate k v [] = [(k, v)]"
| "InsertOrUpdate k v ((k', v') # t) =
     (if k' = k then (k, v) # t else (k', v') # InsertOrUpdate k v t)"

fun Remove :: "string \<Rightarrow> table \<Rightarrow> table" where
  "Remove k [] = []"
| "Remove k ((k', v) # t) = (if k' = k then Remove k t else (k', v) # Remove k t)"

subsection \<open>The service\<close>

text \<open>
  The members of \<open>ToastNotification\<close>, the allocation counter of handler objects and the
  trace of events so far.
\<close>

record ToastNotification =
  mBackgroundThread :: "nat option"
  mSuppressForScreenSharing :: bool
  mActiveHandlers :: table
  next_handler :: nat
  trace :: "event list"

definition emit :: "event \<Rightarrow> ToastNotification \<Rightarrow> ToastNotification" where
  "emit e st = st\<lparr>trace := trace st @ [e]\<rparr>"

definition table_InsertOrUpdate :: "string \<Rightarrow> nat \<Rightarrow> ToastNotification \<Rightarrow> ToastNotification" where
  "table_InsertOrUpdate k h st =
     emit (Table_InsertOrUpdate k h) (st\<lparr>mActiveHandlers := InsertOrUpdate k h (mActiveHandlers st)\<rparr>)"

definition table_Remove :: "string \<Rightarrow> ToastNotification \<Rightarrow> ToastNotification" where
  "table_Remove k st =
     emit (Table_Remove k) (st\<lparr>mActiveHandlers := Remove k (mActiveHandlers st)\<rparr>)"

text \<open>
  \<open>new ToastNotificationHandler(...)\<close>: a fresh object, distinct from every handler
  allocated before, constructed from the arguments given.
\<close>

definition new_ToastNotificationHandler ::
  "ToastNotificationHandler \<Rightarrow> ToastNotification \<Rightarrow> nat \<times> ToastNotification" where
  "new_ToastNotificationHandler args st =
     (next_handler st,
      emit (New_ToastNotificationHandler (next_handler st) args)
        (st\<lparr>next_handler := Suc (next_handler st)\<rparr>))"

text \<open>
  Modelled from the spec: the methods of \<open>ToastNotificationHandler\<close> are defined outside
  the source file. \<open>InitAsync(alertSource) -> Result\<close> submits asynchronous work and
  reports whether the submission was accepted; \<open>Unregister()\<close> is the handler's teardown;
  \<open>RenderMarkup(imageURL) -> Result<string>\<close> produces the markup. None of them touches
  the table of the service. What the first and the last return in a call is a parameter
  of that call.
\<close>

definition InitAlertAsync :: "nsresult \<Rightarrow> nat \<Rightarrow> ToastNotification \<Rightarrow> nsresult \<times> ToastNotification" where
  "InitAlertAsync rv h st = (rv, emit (Call_InitAlertAsync h) st)"

definition UnregisterHandler :: "nat \<Rightarrow> ToastNotification \<Rightarrow> ToastNotification" where
  "UnregisterHandler h st = emit (Call_UnregisterHandler h) st"

definition CreateToastXmlString ::
  "nsresult \<times> string \<Rightarrow> nat \<Rightarrow> string \<Rightarrow> ToastNotification \<Rightarrow>
     nsresult \<times> string option \<times> ToastNotification" where
  "CreateToastXmlString xml h imageURL st =
     (fst xml, Some (snd xml), emit (Call_CreateToastXmlString h imageURL) st)"

text \<open>
  What \<open>Init\<close> reads from the system: the Windows version probe, the application user
  model id (\<open>None\<close> when it cannot be obtained), the process environment, the outcome of
  creating the named thread (a result code and the thread, if any) and whether there is
  an observer service.
\<close>

record system =
  IsWin8OrLater :: bool
  GetAppUserModelID :: "string option"
  environ :: "(string \<times> string) list"
  NS_NewNamedThread :: "nsresult \<times> nat option"
  GetObserverService :: bool

definition PR_GetEnv :: "system \<Rightarrow> string \<Rightarrow> string option" where
  "PR_GetEnv sys var = map_of (environ sys) var"

definition Init :: "system \<Rightarrow> ToastNotification \<Rightarrow> nsresult \<times> ToastNotification" where
  "Init sys st =
     (if \<not> IsWin8OrLater sys then (NS_ERROR_NOT_IMPLEMENTED, st)
      else if GetAppUserModelID sys = None \<and> PR_GetEnv sys ''XPCSHELL_TEST_PROFILE_DIR'' = None
      then (NS_ERROR_NOT_IMPLEMENTED, st)
      else
        let rv = fst (NS_NewNamedThread sys);
            st1 = emit (Call_NewNamedThread ''ToastBgThread'')
                    (st\<lparr>mBackgroundThread := snd (NS_NewNamedThread sys)\<rparr>)
        in if NS_FAILED rv then (rv, st1)
           else if GetObserverService sys
           then (NS_OK, emit (Call_AddObserver ''quit-application'') st1)
           else (NS_OK, st1))"

definition GetSuppressForScreenSharing :: "ToastNotification \<Rightarrow> nsresult \<times> bool" where
  "GetSuppressForScreenSharing st = (NS_OK, mSuppressForScreenSharing st)"

definition SetSuppressForScreenSharing :: "bool \<Rightarrow> ToastNotification \<Rightarrow> nsresult \<times> ToastNotification" where
  "SetSuppressForScreenSharing aSuppress st = (NS_OK, st\<lparr>mSuppressForScreenSharing := aSuppress\<rparr>)"

text \<open>
  The loop of \<open>Observe\<close>: the iterator walks the entries that were in the table; for each
  it takes the handler, removes the entry it stands on and unregisters the handler.
\<close>

fun Observe_loop :: "table \<Rightarrow> ToastNotification \<Rightarrow> ToastNotification" where
  "Observe_loop [] st = st"
| "Observe_loop ((k, handler) # rest) st =
     Observe_loop rest (UnregisterHandler handler (table_Remove k st))"

definition Observe :: "nat option \<Rightarrow> string \<Rightarrow> string \<Rightarrow> ToastNotification \<Rightarrow> nsresult \<times> ToastNotification" where
  "Observe aSubject aTopic aData st = (NS_OK, Observe_loop (mActiveHandlers st) st)"

definition ShowAlert ::
  "nsIAlertNotification option \<Rightarrow> nat option \<Rightarrow> nsresult \<Rightarrow> ToastNotification \<Rightarrow>
     nsresult \<times> ToastNotification" where
  "ShowAlert aAlert aAlertListener init_rv st =
     (case aAlert of
        None \<Rightarrow> (NS_ERROR_INVALID_ARG, st)
      | Some alert \<Rightarrow>
          if mSuppressForScreenSharing st then (NS_OK, st)
          else
            MOZ_TRY (GetCookie alert) st (\<lambda>cookie.
            MOZ_TRY (GetName alert) st (\<lambda>name.
            MOZ_TRY (GetTitle alert) st (\<lambda>title.
            MOZ_TRY (GetText alert) st (\<lambda>text.
            MOZ_TRY (GetTextClickable alert) st (\<lambda>textClickable.
            MOZ_TRY (GetSource alert) st (\<lambda>hostPort.
            MOZ_TRY (GetRequireInteraction alert) st (\<lambda>requireInteraction.
            MOZ_TRY (GetActions alert) st (\<lambda>actions.
              let oldHandler = Get (mActiveHandlers st) name;
                  (handler, st1) = new_ToastNotificationHandler
                     \<lparr>mAlertListener = aAlertListener, mName = name, mCookie = cookie,
                      mTitle = title, mMsg = text, mHostPort = hostPort,
                      mClickable = textClickable, mRequireInteraction = requireInteraction,
                      mActions = actions\<rparr> st;
                  st2 = table_InsertOrUpdate name handler st1;
                  (rv, st3) = InitAlertAsync init_rv handler st2
              in if NS_FAILED rv
                 then (rv, UnregisterHandler handler (table_Remove name st3))
                 else (case oldHandler of
                         None \<Rightarrow> (NS_OK, st3)
                       | Some old \<Rightarrow> (NS_OK, UnregisterHandler old st3)))))))))))"

definition ShowPersistentNotification ::
  "string \<Rightarrow> nsIAlertNotification option \<Rightarrow> nat option \<Rightarrow> nsresult \<Rightarrow> ToastNotification \<Rightarrow>
     nsresult \<times> ToastNotification" where
  "ShowPersistentNotification aPersistentData aAlert aAlertListener init_rv st =
     ShowAlert aAlert aAlertListener init_rv st"

definition GetXmlStringForWindowsAlert ::
  "nsIAlertNotification option \<Rightarrow> nsresult \<times> string \<Rightarrow> ToastNotification \<Rightarrow>
     nsresult \<times> string option \<times> ToastNotification" where
  "GetXmlStringForWindowsAlert aAlert xml st =
     (case aAlert of
        None \<Rightarrow> (NS_ERROR_INVALID_ARG, None, st)
      | Some alert \<Rightarrow>
          MOZ_TRY (GetCookie alert) (None, st) (\<lambda>cookie.
          MOZ_TRY (GetName alert) (None, st) (\<lambda>name.
          MOZ_TRY (GetTitle alert) (None, st) (\<lambda>title.
          MOZ_TRY (GetText alert) (None, st) (\<lambda>text.
          MOZ_TRY (GetTextClickable alert) (None, st) (\<lambda>textClickable.
          MOZ_TRY (GetSource alert) (None, st) (\<lambda>hostPort.
          MOZ_TRY (GetRequireInteraction alert) (None, st) (\<lambda>requireInteraction.
          MOZ_TRY (GetActions alert) (None, st) (\<lambda>actions.
            let (handler, st1) = new_ToastNotificationHandler
                   \<lparr>mAlertListener = None, mName = name, mCookie = cookie,
                    mTitle = title, mMsg = text, mHostPort = hostPort,
                    mClickable = textClickable, mRequireInteraction = requireInteraction,
                    mActions = actions\<rparr> st
            in MOZ_TRY (GetImageURL alert) (None, st1) (\<lambda>imageURL.
                 CreateToastXmlString xml handler imageURL st1))))))))))"

definition CloseAlert :: "string \<Rightarrow> ToastNotification \<Rightarrow> nsresult \<times> ToastNotification" where
  "CloseAlert aAlertName st =
     (case Get (mActiveHandlers st) aAlertName of
        None \<Rightarrow> (NS_OK, st)
      | Some handler \<Rightarrow> (NS_OK, UnregisterHandler handler (table_Remove aAlertName st)))"

definition IsActiveHandler :: "string \<Rightarrow> nat option \<Rightarrow> ToastNotification \<Rightarrow> bool" where
  "IsActiveHandler aAlertName aHandler st =
     (case Get (mActiveHandlers st) aAlertName of
        None \<Rightarrow> False
      | Some handler \<Rightarrow> Some handler = aHandler)"

text \<open>
  In \<open>RemoveHandler\<close> the handler is dereferenced only after \<open>IsActiveHandler\<close> has held,
  which it never does for a null handler: the table holds no null entry.
\<close>

definition RemoveHandler :: "string \<Rightarrow> nat option \<Rightarrow> ToastNotification \<Rightarrow> ToastNotification" where
  "RemoveHandler aAlertName aHandler st =
     (if IsActiveHandler aAlertName aHandler st
      then (case aHandler of
              None \<Rightarrow> st
            | Some h \<Rightarrow> UnregisterHandler h (table_Remove aAlertName st))
      else st)"


subsection \<open>Vocabulary of the statements\<close>

text \<open>
  The result codes of the eight getters that \<open>ShowAlert\<close> and
  \<open>GetXmlStringForWindowsAlert\<close> read before they construct a handler, in the order the
  source calls them.
\<close>

definition field_results :: "nsIAlertNotification \<Rightarrow> nsresult list" where
  "field_results alert =
     [fst (GetCookie alert), fst (GetName alert), fst (GetTitle alert), fst (GetText alert),
      fst (GetTextClickable alert), fst (GetSource alert), fst (GetRequireInteraction alert),
      fst (GetActions alert)]"

text \<open>
  The states the service can be in: the table has one entry per name, no handler is
  entered under two names, and every handler in the table was allocated before.
\<close>

definition wf_state :: "ToastNotification \<Rightarrow> bool" where
  "wf_state st \<longleftrightarrow>
     distinct (map fst (mActiveHandlers st)) \<and>
     distinct (map snd (mActiveHandlers st)) \<and>
     list_all (\<lambda>e. snd e < next_handler st) (mActiveHandlers st)"

subsection \<open>Facts about the table\<close>

lemma Get_Remove: "Get (Remove k t) k' = (if k' = k then None else Get t k')"
  by (induction t) auto

lemma Get_InsertOrUpdate: "Get (InsertOrUpdate k v t) k' = (if k' = k then Some v else Get t k')"
  by (induction t) auto

lemma Get_None_Remove: "Get t k = None \<Longrightarrow> Remove k t = t"
  by (induction t) (auto split: if_splits)

lemma Remove_filter: "Remove k t = filter (\<lambda>e. fst e \<noteq> k) t"
  by (induction t) auto

subsection \<open>The shutdown drain\<close>

lemma Observe_loop_table:
  "mActiveHandlers (Observe_loop p st) = filter (\<lambda>e. fst e \<notin> fst ` set p) (mActiveHandlers st)"
proof (induction p arbitrary: st)
  case Nil
  then show ?case by simp
next
  case (Cons e p)
  obtain k h where e: "e = (k, h)" by (cases e)
  show ?case
    by (simp add: e Cons.IH UnregisterHandler_def table_Remove_def emit_def Remove_filter conj_commute)
qed

lemma Observe_loop_trace:
  "trace (Observe_loop p st) =
     trace st @ concat (map (\<lambda>(k, h). [Table_Remove k, Call_UnregisterHandler h]) p)"
proof (induction p arbitrary: st)
  case Nil
  then show ?case by simp
next
  case (Cons e p)
  obtain k h where e: "e = (k, h)" by (cases e)
  show ?case
    by (simp add: e Cons.IH UnregisterHandler_def table_Remove_def emit_def)
qed

lemma count_unregister:
  "count_list (concat (map (\<lambda>(k, h). [Table_Remove k, Call_UnregisterHandler h]) p))
       (Call_UnregisterHandler x)
     = count_list (map snd p) x"
  by (induction p) auto

lemma count_distinct: "distinct xs \<Longrightarrow> count_list xs x = (if x \<in> set xs then 1 else 0)"
  by (induction xs) auto

text \<open>
  C3. For every state of the table, \<open>Observe\<close> returns \<open>NS_OK\<close> and leaves the table
  empty; what it does is, for each entry that was in the table and in iteration order,
  to remove the entry and then call \<open>UnregisterHandler\<close> on its handler, so that the drain
  calls \<open>UnregisterHandler\<close> exactly once on each handler that was in the table (handlers
  being entered under one name only) and on no other; on an empty table it returns
  \<open>NS_OK\<close> and changes nothing.
\<close>

theorem Observe_drains_table:
  "fst (Observe aSubject aTopic aData st) = NS_OK
   \<and> mActiveHandlers (snd (Observe aSubject aTopic aData st)) = []
   \<and> trace (snd (Observe aSubject aTopic aData st)) =
       trace st @ concat (map (\<lambda>(k, h). [Table_Remove k, Call_UnregisterHandler h]) (mActiveHandlers st))
   \<and> (distinct (map snd (mActiveHandlers st)) \<longrightarrow>
        (\<forall>h. count_list (drop (length (trace st)) (trace (snd (Observe aSubject aTopic aData st))))
                (Call_UnregisterHandler h)
              = (if h \<in> snd ` set (mActiveHandlers st) then 1 else 0)))
   \<and> (mActiveHandlers st = [] \<longrightarrow> Observe aSubject aTopic aData st = (NS_OK, st))"
  by (simp add: Observe_def Observe_loop_table Observe_loop_trace count_unregister count_distinct)

theorem Observe_drains_table_witness:
  "distinct (map snd [(''A'', 0::nat), (''B'', 1)])
   \<and> Observe None ''quit-application'' []
        \<lparr>mBackgroundThread = Some 1, mSuppressForScreenSharing = False,
         mActiveHandlers = [(''A'', 0), (''B'', 1)], next_handler = 2, trace = []\<rparr>
      = (NS_OK,
        \<lparr>mBackgroundThread = Some 1, mSuppressForScreenSharing = False,
         mActiveHandlers = [], next_handler = 2,
         trace = [Table_Remove ''A'', Call_UnregisterHandler 0,
                  Table_Remove ''B'', Call_UnregisterHandler 1]\<rparr>)
   \<and> count_list [Table_Remove ''A'', Call_UnregisterHandler 0,
                  Table_Remove ''B'', Call_UnregisterHandler 1] (Call_UnregisterHandler 1) = 1
   \<and> Observe None ''quit-application'' []
        \<lparr>mBackgroundThread = None, mSuppressForScreenSharing = False,
         mActiveHandlers = [], next_handler = 2, trace = []\<rparr>
      = (NS_OK,
        \<lparr>mBackgroundThread = None, mSuppressForScreenSharing = False,
         mActiveHandlers = [], next_handler = 2, trace = []\<rparr>)"
  using Observe_drains_table [of None "''quit-application''" "[]"
          "\<lparr>mBackgroundThread = Some 1, mSuppressForScreenSharing = False,
            mActiveHandlers = [(''A'', 0), (''B'', 1)], next_handler = 2, trace = []\<rparr>"]
        Observe_drains_table [of None "''quit-application''" "[]"
          "\<lparr>mBackgroundThread = None, mSuppressForScreenSharing = False,
            mActiveHandlers = [], next_handler = 2, trace = []\<rparr>"]
  by (simp add: Observe_def UnregisterHandler_def table_Remove_def emit_def)

subsection \<open>Closing an alert and the removal primitive\<close>

text \<open>
  C7. For every name \<open>n\<close>, \<open>CloseAlert n\<close> returns \<open>NS_OK\<close> in all cases. With no entry
  for \<open>n\<close> it changes nothing. With an entry it first removes the entry from the table and
  then calls \<open>UnregisterHandler\<close> on that handler; the entries of the other names stay.
  Afterwards the table has no entry for \<open>n\<close>, so that a second \<open>CloseAlert n\<close> right after
  the first returns \<open>NS_OK\<close> and changes nothing.
\<close>

theorem CloseAlert_idempotent:
  "fst (CloseAlert n st) = NS_OK
   \<and> (\<forall>m. Get (mActiveHandlers (snd (CloseAlert n st))) m
            = (if m = n then None else Get (mActiveHandlers st) m))
   \<and> (Get (mActiveHandlers st) n = None \<longrightarrow> snd (CloseAlert n st) = st)
   \<and> (\<forall>h. Get (mActiveHandlers st) n = Some h \<longrightarrow>
         trace (snd (CloseAlert n st)) = trace st @ [Table_Remove n, Call_UnregisterHandler h])
   \<and> CloseAlert n (snd (CloseAlert n st)) = (NS_OK, snd (CloseAlert n st))"
  by (auto simp: CloseAlert_def UnregisterHandler_def table_Remove_def emit_def Get_Remove
           split: option.splits)

theorem CloseAlert_idempotent_witness:
  "Get [(''A'', 0)] ''A'' = Some 0 \<and> Get [(''A'', 0)] ''B'' = None
   \<and> CloseAlert ''A''
        \<lparr>mBackgroundThread = None, mSuppressForScreenSharing = False,
         mActiveHandlers = [(''A'', 0)], next_handler = 1, trace = []\<rparr>
      = (NS_OK,
        \<lparr>mBackgroundThread = None, mSuppressForScreenSharing = False,
         mActiveHandlers = [], next_handler = 1,
         trace = [Table_Remove ''A'', Call_UnregisterHandler 0]\<rparr>)
   \<and> CloseAlert ''B''
        \<lparr>mBackgroundThread = None, mSuppressForScreenSharing = False,
         mActiveHandlers = [(''A'', 0)], next_handler = 1, trace = []\<rparr>
      = (NS_OK,
        \<lparr>mBackgroundThread = None, mSuppressForScreenSharing = False,
         mActiveHandlers = [(''A'', 0)], next_handler = 1, trace = []\<rparr>)"
  using CloseAlert_idempotent [of "''A''"
          "\<lparr>mBackgroundThread = None, mSuppressForScreenSharing = False,
            mActiveHandlers = [(''A'', 0)], next_handler = 1, trace = []\<rparr>"]
        CloseAlert_idempotent [of "''B''"
          "\<lparr>mBackgroundThread = None, mSuppressForScreenSharing = False,
            mActiveHandlers = [(''A'', 0)], next_handler = 1, trace = []\<rparr>"]
  by (simp add: CloseAlert_def UnregisterHandler_def table_Remove_def emit_def)

text \<open>
  C2. For every name \<open>n\<close> and handler \<open>h\<close>, \<open>RemoveHandler n h\<close> removes the entry of \<open>n\<close>
  and then calls \<open>UnregisterHandler\<close> on \<open>h\<close> when the table's entry for \<open>n\<close> is \<open>h\<close>
  itself. When the table has no entry for \<open>n\<close>, or the entry is another handler that
  has superseded \<open>h\<close>, the call changes nothing: no entry is removed and nothing is
  unregistered. Nor does a call with a null handler change anything.
\<close>

theorem RemoveHandler_only_if_current:
  "(Get (mActiveHandlers st) n = Some h \<longrightarrow>
      (\<forall>m. Get (mActiveHandlers (RemoveHandler n (Some h) st)) m
              = (if m = n then None else Get (mActiveHandlers st) m))
      \<and> trace (RemoveHandler n (Some h) st) = trace st @ [Table_Remove n, Call_UnregisterHandler h])
   \<and> (Get (mActiveHandlers st) n \<noteq> Some h \<longrightarrow> RemoveHandler n (Some h) st = st)
   \<and> RemoveHandler n None st = st"
  by (auto simp: RemoveHandler_def IsActiveHandler_def UnregisterHandler_def table_Remove_def
                 emit_def Get_Remove
           split: option.splits)

theorem RemoveHandler_only_if_current_witness:
  "Get [(''A'', 1)] ''A'' = Some 1 \<and> Get [(''A'', 1)] ''A'' \<noteq> Some 0
   \<and> RemoveHandler ''A'' (Some 1)
        \<lparr>mBackgroundThread = None, mSuppressForScreenSharing = False,
         mActiveHandlers = [(''A'', 1)], next_handler = 2, trace = []\<rparr>
      = \<lparr>mBackgroundThread = None, mSuppressForScreenSharing = False,
         mActiveHandlers = [], next_handler = 2,
         trace = [Table_Remove ''A'', Call_UnregisterHandler 1]\<rparr>
   \<and> RemoveHandler ''A'' (Some 0)
        \<lparr>mBackgroundThread = None, mSuppressForScreenSharing = False,
         mActiveHandlers = [(''A'', 1)], next_handler = 2, trace = []\<rparr>
      = \<lparr>mBackgroundThread = None, mSuppressForScreenSharing = False,
         mActiveHandlers = [(''A'', 1)], next_handler = 2, trace = []\<rparr>"
  using RemoveHandler_only_if_current [of
          "\<lparr>mBackgroundThread = None, mSuppressForScreenSharing = False,
            mActiveHandlers = [(''A'', 1)], next_handler = 2, trace = []\<rparr>" "''A''" 1]
        RemoveHandler_only_if_current [of
          "\<lparr>mBackgroundThread = None, mSuppressForScreenSharing = False,
            mActiveHandlers = [(''A'', 1)], next_handler = 2, trace = []\<rparr>" "''A''" 0]
  by (simp add: RemoveHandler_def IsActiveHandler_def UnregisterHandler_def table_Remove_def
                emit_def)

subsection \<open>Showing an alert\<close>

lemma NS_FAILED_not_OK: "NS_FAILED rv \<Longrightarrow> rv \<noteq> NS_OK"
  by (cases rv) auto

lemma filter_InsertOrUpdate:
  "distinct (map fst t) \<Longrightarrow> filter (\<lambda>e. fst e = k) (InsertOrUpdate k v t) = [(k, v)]"
proof (induction t)
  case Nil
  then show ?case by simp
next
  case (Cons e t)
  obtain k' v' where e: "e = (k', v')" by (cases e)
  have "k' = k \<Longrightarrow> filter (\<lambda>e. fst e = k) t = []"
    using Cons.prems by (auto simp: e filter_empty_conv)
  with Cons show ?case by (auto simp: e)
qed

lemma Get_Some_mem: "Get t k = Some v \<Longrightarrow> (k, v) \<in> set t"
  by (induction t) (auto split: if_splits)

text \<open>
  What \<open>ShowAlert\<close> does once the suppression flag is clear and the eight getters have
  succeeded, for a failed and for an accepted submission of the initialisation.
\<close>

lemma ShowAlert_past_getters:
  assumes "\<not> mSuppressForScreenSharing st" "list_all (\<lambda>r. \<not> NS_FAILED r) (field_results a)"
  shows "ShowAlert (Some a) l rv st =
     (if NS_FAILED rv
      then (rv, st\<lparr>mActiveHandlers := Remove (snd (GetName a)) (InsertOrUpdate (snd (GetName a)) (next_handler st) (mActiveHandlers st)),
                  next_handler := Suc (next_handler st),
                  trace := trace st @
                    [New_ToastNotificationHandler (next_handler st)
                       \<lparr>mAlertListener = l, mName = snd (GetName a), mCookie = snd (GetCookie a),
                        mTitle = snd (GetTitle a), mMsg = snd (GetText a), mHostPort = snd (GetSource a),
                        mClickable = snd (GetTextClickable a),
                        mRequireInteraction = snd (GetRequireInteraction a),
                        mActions = snd (GetActions a)\<rparr>,
                     Table_InsertOrUpdate (snd (GetName a)) (next_handler st),
                     Call_InitAlertAsync (next_handler st),
                     Table_Remove (snd (GetName a)),
                     Call_UnregisterHandler (next_handler st)]\<rparr>)
      else (NS_OK, st\<lparr>mActiveHandlers := InsertOrUpdate (snd (GetName a)) (next_handler st) (mActiveHandlers st),
                  next_handler := Suc (next_handler st),
                  trace := trace st @
                    [New_ToastNotificationHandler (next_handler st)
                       \<lparr>mAlertListener = l, mName = snd (GetName a), mCookie = snd (GetCookie a),
                        mTitle = snd (GetTitle a), mMsg = snd (GetText a), mHostPort = snd (GetSource a),
                        mClickable = snd (GetTextClickable a),
                        mRequireInteraction = snd (GetRequireInteraction a),
                        mActions = snd (GetActions a)\<rparr>,
                     Table_InsertOrUpdate (snd (GetName a)) (next_handler st),
                     Call_InitAlertAsync (next_handler st)] @
                    (case Get (mActiveHandlers st) (snd (GetName a)) of
                       None \<Rightarrow> [] | Some old \<Rightarrow> [Call_UnregisterHandler old])\<rparr>))"
  using assms
  by (simp add: ShowAlert_def MOZ_TRY_def field_results_def new_ToastNotificationHandler_def
        table_InsertOrUpdate_def table_Remove_def InitAlertAsync_def UnregisterHandler_def emit_def
        split: option.splits)

lemma ShowAlert_getter_fails:
  assumes "find NS_FAILED (field_results a) = Some e"
  shows "ShowAlert (Some a) l rv st = (if mSuppressForScreenSharing st then NS_OK else e, st)"
  using assms
  by (auto simp: ShowAlert_def MOZ_TRY_def field_results_def split: if_splits)

lemma find_cases: "find P xs = None \<longleftrightarrow> list_all (\<lambda>x. \<not> P x) xs"
  by (induction xs) auto


lemma ShowAlert_NS_OK_past_getters:
  assumes "\<not> mSuppressForScreenSharing st" "fst (ShowAlert (Some a) l rv st) = NS_OK"
  shows "list_all (\<lambda>r. \<not> NS_FAILED r) (field_results a) \<and> \<not> NS_FAILED rv"
proof -
  have g: "find NS_FAILED (field_results a) = None"
  proof (cases "find NS_FAILED (field_results a)")
    case None
    then show ?thesis .
  next
    case (Some e)
    then have "NS_FAILED e" by (auto simp: find_Some_iff)
    moreover have "fst (ShowAlert (Some a) l rv st) = e"
      using ShowAlert_getter_fails [OF Some] assms(1) by simp
    ultimately show ?thesis using assms(2) NS_FAILED_not_OK by auto
  qed
  then have ok: "list_all (\<lambda>r. \<not> NS_FAILED r) (field_results a)" by (simp add: find_cases)
  have "\<not> NS_FAILED rv"
  proof
    assume f: "NS_FAILED rv"
    then have "fst (ShowAlert (Some a) l rv st) = rv"
      by (simp add: ShowAlert_past_getters [OF assms(1) ok])
    then show False using assms(2) f NS_FAILED_not_OK by auto
  qed
  with ok show ?thesis by simp
qed

lemma Remove_InsertOrUpdate: "Remove k (InsertOrUpdate k v t) = Remove k t"
  by (induction k v t rule: InsertOrUpdate.induct) simp_all

lemma Remove_InsertOrUpdate_set:
  "set (Remove k (InsertOrUpdate k v t)) = {e \<in> set t. fst e \<noteq> k}"
  by (simp only: Remove_InsertOrUpdate) (simp add: Remove_filter)

lemma distinct_snd_key:
  "distinct (map snd t) \<Longrightarrow> (k, v) \<in> set t \<Longrightarrow> (k', v) \<in> set t \<Longrightarrow> k = k'"
proof -
  assume "distinct (map snd t)" and m: "(k, v) \<in> set t" "(k', v) \<in> set t"
  then have "inj_on snd (set t)" by (simp add: distinct_map)
  from inj_onD [OF this _ m] show "k = k'" by simp
qed

lemma wf_state_fresh: "wf_state st \<Longrightarrow> Get (mActiveHandlers st) k = Some h \<Longrightarrow> h < next_handler st"
proof -
  assume w: "wf_state st" and g: "Get (mActiveHandlers st) k = Some h"
  from g have "(k, h) \<in> set (mActiveHandlers st)" by (rule Get_Some_mem)
  moreover from w have "\<forall>e \<in> set (mActiveHandlers st). snd e < next_handler st"
    by (simp add: wf_state_def list_all_iff)
  ultimately show ?thesis by fastforce
qed



text \<open>
  C1, as amended. For every alert name \<open>n\<close>, if \<open>ShowAlert\<close> is called for \<open>n\<close> with the
  suppression flag clear while the table maps \<open>n\<close> to an old handler, and the call
  returns \<open>NS_OK\<close>, then the call constructs a new handler, enters it under \<open>n\<close>
  (overwriting the old entry), submits its initialisation and only then calls
  \<open>UnregisterHandler\<close> on the old handler; when the call returns, the table holds exactly
  one entry for \<open>n\<close>, and it is the new handler, which is not the old one.
\<close>

theorem ShowAlert_supersedes_old_handler:
  assumes "wf_state st" "\<not> mSuppressForScreenSharing st"
    and "Get (mActiveHandlers st) (snd (GetName a)) = Some old"
    and "ShowAlert (Some a) l rv st = (NS_OK, st')"
  shows "trace st' = trace st @
           [New_ToastNotificationHandler (next_handler st)
              \<lparr>mAlertListener = l, mName = snd (GetName a), mCookie = snd (GetCookie a),
               mTitle = snd (GetTitle a), mMsg = snd (GetText a), mHostPort = snd (GetSource a),
               mClickable = snd (GetTextClickable a),
               mRequireInteraction = snd (GetRequireInteraction a),
               mActions = snd (GetActions a)\<rparr>,
            Table_InsertOrUpdate (snd (GetName a)) (next_handler st),
            Call_InitAlertAsync (next_handler st),
            Call_UnregisterHandler old]
         \<and> filter (\<lambda>e. fst e = snd (GetName a)) (mActiveHandlers st')
             = [(snd (GetName a), next_handler st)]
         \<and> Get (mActiveHandlers st') (snd (GetName a)) = Some (next_handler st)
         \<and> next_handler st \<noteq> old"
proof -
  have "fst (ShowAlert (Some a) l rv st) = NS_OK" using assms(4) by simp
  from ShowAlert_NS_OK_past_getters [OF assms(2) this]
  have ok: "list_all (\<lambda>r. \<not> NS_FAILED r) (field_results a)" and rv: "\<not> NS_FAILED rv" by simp_all
  have d: "distinct (map fst (mActiveHandlers st))" using assms(1) by (simp add: wf_state_def)
  have "old < next_handler st" using wf_state_fresh [OF assms(1) assms(3)] .
  then show ?thesis
    using assms(4) rv assms(3)
    by (auto simp: ShowAlert_past_getters [OF assms(2) ok] filter_InsertOrUpdate [OF d]
          Get_InsertOrUpdate)
qed

theorem ShowAlert_supersedes_old_handler_witness:
  "wf_state \<lparr>mBackgroundThread = None, mSuppressForScreenSharing = False,
            mActiveHandlers = [(''A'', 0)], next_handler = 1, trace = []\<rparr>
   \<and> Get [(''A'', 0)] ''A'' = Some 0
   \<and> ShowAlert (Some \<lparr>GetCookie = (NS_OK, ''c''), GetName = (NS_OK, ''A''), GetTitle = (NS_OK, ''T2''),
            GetText = (NS_OK, ''hello''), GetTextClickable = (NS_OK, True),
            GetSource = (NS_OK, ''example.org''), GetRequireInteraction = (NS_OK, False),
            GetActions = (NS_OK, []), GetImageURL = (NS_OK, ''img.png'')\<rparr>) (Some 7) NS_OK
         \<lparr>mBackgroundThread = None, mSuppressForScreenSharing = False,
            mActiveHandlers = [(''A'', 0)], next_handler = 1, trace = []\<rparr>
       = (NS_OK, \<lparr>mBackgroundThread = None, mSuppressForScreenSharing = False,
            mActiveHandlers = [(''A'', 1)], next_handler = 2, trace = [New_ToastNotificationHandler 1
                \<lparr>mAlertListener = Some 7, mName = ''A'', mCookie = ''c'', mTitle = ''T2'',
                 mMsg = ''hello'', mHostPort = ''example.org'', mClickable = True,
                 mRequireInteraction = False, mActions = []\<rparr>,
              Table_InsertOrUpdate ''A'' 1, Call_InitAlertAsync 1, Call_UnregisterHandler 0]\<rparr>)
   \<and> filter (\<lambda>e. fst e = ''A'') [(''A'', 1::nat)] = [(''A'', 1)]"
  using ShowAlert_supersedes_old_handler [of
          "\<lparr>mBackgroundThread = None, mSuppressForScreenSharing = False,
            mActiveHandlers = [(''A'', 0)], next_handler = 1, trace = []\<rparr>"
          "\<lparr>GetCookie = (NS_OK, ''c''), GetName = (NS_OK, ''A''), GetTitle = (NS_OK, ''T2''),
            GetText = (NS_OK, ''hello''), GetTextClickable = (NS_OK, True),
            GetSource = (NS_OK, ''example.org''), GetRequireInteraction = (NS_OK, False),
            GetActions = (NS_OK, []), GetImageURL = (NS_OK, ''img.png'')\<rparr>"
          0 "Some 7" NS_OK
          "\<lparr>mBackgroundThread = None, mSuppressForScreenSharing = False,
            mActiveHandlers = [(''A'', 1)], next_handler = 2, trace = [New_ToastNotificationHandler 1
                \<lparr>mAlertListener = Some 7, mName = ''A'', mCookie = ''c'', mTitle = ''T2'',
                 mMsg = ''hello'', mHostPort = ''example.org'', mClickable = True,
                 mRequireInteraction = False, mActions = []\<rparr>,
              Table_InsertOrUpdate ''A'' 1, Call_InitAlertAsync 1, Call_UnregisterHandler 0]\<rparr>"]
  by (simp add: ShowAlert_def MOZ_TRY_def field_results_def wf_state_def
        new_ToastNotificationHandler_def table_InsertOrUpdate_def table_Remove_def
        InitAlertAsync_def UnregisterHandler_def emit_def)

text \<open>
  C1 as it is stated fails when the suppression flag is set: the call for \<open>''A''\<close>
  returns \<open>NS_OK\<close>, yet no handler is constructed or entered and the table still maps
  \<open>''A''\<close> to the old handler \<open>0\<close>.
\<close>

theorem ShowAlert_suppressed_counterexample:
  "ShowAlert (Some \<lparr>GetCookie = (NS_OK, ''c''), GetName = (NS_OK, ''A''), GetTitle = (NS_OK, ''T2''),
            GetText = (NS_OK, ''hello''), GetTextClickable = (NS_OK, True),
            GetSource = (NS_OK, ''example.org''), GetRequireInteraction = (NS_OK, False),
            GetActions = (NS_OK, []), GetImageURL = (NS_OK, ''img.png'')\<rparr>) (Some 7) NS_OK
         \<lparr>mBackgroundThread = None, mSuppressForScreenSharing = True,
            mActiveHandlers = [(''A'', 0)], next_handler = 1, trace = []\<rparr>
       = (NS_OK, \<lparr>mBackgroundThread = None, mSuppressForScreenSharing = True,
            mActiveHandlers = [(''A'', 0)], next_handler = 1, trace = []\<rparr>)
   \<and> Get [(''A'', 0)] ''A'' = Some 0"
  by (simp add: ShowAlert_def)




text \<open>
  C10. For every call of \<open>ShowAlert\<close> in which an old handler existed for the name and the
  submission of the new handler's initialisation fails, the call returns the failure
  code with no entry for the name in the table: the old handler's entry, overwritten by
  the insert, is not put back, the old handler is in the table under no name, and the
  events of the call concern the new handler only, so that \<open>UnregisterHandler\<close> is not
  called on the old handler.
\<close>

theorem ShowAlert_init_failure_drops_old_entry:
  assumes "wf_state st" "\<not> mSuppressForScreenSharing st"
    and "list_all (\<lambda>r. \<not> NS_FAILED r) (field_results a)"
    and "NS_FAILED rv"
    and "Get (mActiveHandlers st) (snd (GetName a)) = Some old"
  shows "fst (ShowAlert (Some a) l rv st) = rv
         \<and> Get (mActiveHandlers (snd (ShowAlert (Some a) l rv st))) (snd (GetName a)) = None
         \<and> old \<notin> snd ` set (mActiveHandlers (snd (ShowAlert (Some a) l rv st)))
         \<and> trace (snd (ShowAlert (Some a) l rv st)) = trace st @
             [New_ToastNotificationHandler (next_handler st)
                \<lparr>mAlertListener = l, mName = snd (GetName a), mCookie = snd (GetCookie a),
                 mTitle = snd (GetTitle a), mMsg = snd (GetText a), mHostPort = snd (GetSource a),
                 mClickable = snd (GetTextClickable a),
                 mRequireInteraction = snd (GetRequireInteraction a),
                 mActions = snd (GetActions a)\<rparr>,
              Table_InsertOrUpdate (snd (GetName a)) (next_handler st),
              Call_InitAlertAsync (next_handler st),
              Table_Remove (snd (GetName a)),
              Call_UnregisterHandler (next_handler st)]
         \<and> next_handler st \<noteq> old
         \<and> Call_UnregisterHandler old
             \<notin> set (drop (length (trace st)) (trace (snd (ShowAlert (Some a) l rv st))))"
proof -
  have lt: "old < next_handler st" using wf_state_fresh [OF assms(1) assms(5)] .
  have d: "distinct (map snd (mActiveHandlers st))" using assms(1) by (simp add: wf_state_def)
  have mem: "(snd (GetName a), old) \<in> set (mActiveHandlers st)" using assms(5) by (rule Get_Some_mem)
  have gone: "old \<notin> snd ` {e \<in> set (mActiveHandlers st). fst e \<noteq> snd (GetName a)}"
    using distinct_snd_key [OF d mem] by auto
  show ?thesis
    using assms(4) lt gone
    by (simp add: ShowAlert_past_getters [OF assms(2) assms(3)] Get_Remove
          Remove_InsertOrUpdate_set)
qed

theorem ShowAlert_init_failure_drops_old_entry_witness:
  "wf_state \<lparr>mBackgroundThread = None, mSuppressForScreenSharing = False,
            mActiveHandlers = [(''A'', 0)], next_handler = 1, trace = []\<rparr>
   \<and> list_all (\<lambda>r. \<not> NS_FAILED r) (field_results
           \<lparr>GetCookie = (NS_OK, ''c''), GetName = (NS_OK, ''A''), GetTitle = (NS_OK, ''T2''),
            GetText = (NS_OK, ''hello''), GetTextClickable = (NS_OK, True),
            GetSource = (NS_OK, ''example.org''), GetRequireInteraction = (NS_OK, False),
            GetActions = (NS_OK, []), GetImageURL = (NS_OK, ''img.png'')\<rparr>)
   \<and> NS_FAILED NS_ERROR_FAILURE
   \<and> Get [(''A'', 0)] ''A'' = Some 0
   \<and> ShowAlert (Some \<lparr>GetCookie = (NS_OK, ''c''), GetName = (NS_OK, ''A''), GetTitle = (NS_OK, ''T2''),
            GetText = (NS_OK, ''hello''), GetTextClickable = (NS_OK, True),
            GetSource = (NS_OK, ''example.org''), GetRequireInteraction = (NS_OK, False),
            GetActions = (NS_OK, []), GetImageURL = (NS_OK, ''img.png'')\<rparr>) (Some 7) NS_ERROR_FAILURE
         \<lparr>mBackgroundThread = None, mSuppressForScreenSharing = False,
            mActiveHandlers = [(''A'', 0)], next_handler = 1, trace = []\<rparr>
       = (NS_ERROR_FAILURE, \<lparr>mBackgroundThread = None, mSuppressForScreenSharing = False,
            mActiveHandlers = [], next_handler = 2, trace = [New_ToastNotificationHandler 1
                \<lparr>mAlertListener = Some 7, mName = ''A'', mCookie = ''c'', mTitle = ''T2'',
                 mMsg = ''hello'', mHostPort = ''example.org'', mClickable = True,
                 mRequireInteraction = False, mActions = []\<rparr>,
              Table_InsertOrUpdate ''A'' 1, Call_InitAlertAsync 1, Table_Remove ''A'',
              Call_UnregisterHandler 1]\<rparr>)"
  using ShowAlert_init_failure_drops_old_entry [of
          "\<lparr>mBackgroundThread = None, mSuppressForScreenSharing = False,
            mActiveHandlers = [(''A'', 0)], next_handler = 1, trace = []\<rparr>"
          "\<lparr>GetCookie = (NS_OK, ''c''), GetName = (NS_OK, ''A''), GetTitle = (NS_OK, ''T2''),
            GetText = (NS_OK, ''hello''), GetTextClickable = (NS_OK, True),
            GetSource = (NS_OK, ''example.org''), GetRequireInteraction = (NS_OK, False),
            GetActions = (NS_OK, []), GetImageURL = (NS_OK, ''img.png'')\<rparr>"
          NS_ERROR_FAILURE 0 "Some 7"]
  by (simp add: ShowAlert_def MOZ_TRY_def field_results_def wf_state_def
        new_ToastNotificationHandler_def table_InsertOrUpdate_def table_Remove_def
        InitAlertAsync_def UnregisterHandler_def emit_def)

subsection \<open>Failing fast on the alert source\<close>

lemma GetXml_getter_fails:
  assumes "find NS_FAILED (field_results a) = Some e"
  shows "GetXmlStringForWindowsAlert (Some a) xml st = (e, None, st)"
  using assms
  by (auto simp: GetXmlStringForWindowsAlert_def MOZ_TRY_def field_results_def split: if_splits)

text \<open>
  C5. A null alert makes \<open>ShowAlert\<close> and \<open>GetXmlStringForWindowsAlert\<close> return
  \<open>NS_ERROR_INVALID_ARG\<close> with the state unchanged. When one of the getters for cookie,
  name, title, text, textClickable, source, requireInteraction and actions fails, \<open>e\<close>
  being the code of the first that does in the order of the calls, then
  \<open>GetXmlStringForWindowsAlert\<close> returns \<open>e\<close>, and so does \<open>ShowAlert\<close> whenever it reads
  the alert at all (with the suppression flag set it reads no field, so that no getter
  fails); in every case the state is unchanged: no handler is constructed, the table
  is not touched and no handler is unregistered.
\<close>

theorem field_failure_aborts_before_mutation:
  "ShowAlert None l rv st = (NS_ERROR_INVALID_ARG, st)
   \<and> GetXmlStringForWindowsAlert None xml st = (NS_ERROR_INVALID_ARG, None, st)
   \<and> (find NS_FAILED (field_results a) = Some e \<longrightarrow>
        NS_FAILED e
        \<and> snd (ShowAlert (Some a) l rv st) = st
        \<and> (\<not> mSuppressForScreenSharing st \<longrightarrow> fst (ShowAlert (Some a) l rv st) = e)
        \<and> GetXmlStringForWindowsAlert (Some a) xml st = (e, None, st))"
  by (auto simp: ShowAlert_getter_fails GetXml_getter_fails find_Some_iff)
     (simp_all add: ShowAlert_def GetXmlStringForWindowsAlert_def)

theorem field_failure_aborts_before_mutation_witness:
  "find NS_FAILED (field_results
           \<lparr>GetCookie = (NS_OK, ''c''), GetName = (NS_OK, ''A''),
            GetTitle = (NS_ERROR_FAILURE, []), GetText = (NS_OK, ''hello''),
            GetTextClickable = (NS_OK, True), GetSource = (NS_ERROR_OTHER 5, []),
            GetRequireInteraction = (NS_OK, False), GetActions = (NS_OK, []),
            GetImageURL = (NS_OK, ''img.png'')\<rparr>) = Some NS_ERROR_FAILURE
   \<and> ShowAlert (Some \<lparr>GetCookie = (NS_OK, ''c''), GetName = (NS_OK, ''A''),
            GetTitle = (NS_ERROR_FAILURE, []), GetText = (NS_OK, ''hello''),
            GetTextClickable = (NS_OK, True), GetSource = (NS_ERROR_OTHER 5, []),
            GetRequireInteraction = (NS_OK, False), GetActions = (NS_OK, []),
            GetImageURL = (NS_OK, ''img.png'')\<rparr>) (Some 7) NS_OK
         \<lparr>mBackgroundThread = None, mSuppressForScreenSharing = False,
            mActiveHandlers = [(''A'', 0)], next_handler = 1, trace = []\<rparr>
       = (NS_ERROR_FAILURE, \<lparr>mBackgroundThread = None, mSuppressForScreenSharing = False,
            mActiveHandlers = [(''A'', 0)], next_handler = 1, trace = []\<rparr>)
   \<and> GetXmlStringForWindowsAlert (Some \<lparr>GetCookie = (NS_OK, ''c''), GetName = (NS_OK, ''A''),
            GetTitle = (NS_ERROR_FAILURE, []), GetText = (NS_OK, ''hello''),
            GetTextClickable = (NS_OK, True), GetSource = (NS_ERROR_OTHER 5, []),
            GetRequireInteraction = (NS_OK, False), GetActions = (NS_OK, []),
            GetImageURL = (NS_OK, ''img.png'')\<rparr>) (NS_OK, ''<toast/>'')
         \<lparr>mBackgroundThread = None, mSuppressForScreenSharing = False,
            mActiveHandlers = [(''A'', 0)], next_handler = 1, trace = []\<rparr>
       = (NS_ERROR_FAILURE, None, \<lparr>mBackgroundThread = None, mSuppressForScreenSharing = False,
            mActiveHandlers = [(''A'', 0)], next_handler = 1, trace = []\<rparr>)"
  using field_failure_aborts_before_mutation [of "Some 7" NS_OK
          "\<lparr>mBackgroundThread = None, mSuppressForScreenSharing = False,
            mActiveHandlers = [(''A'', 0)], next_handler = 1, trace = []\<rparr>"
          "(NS_OK, ''<toast/>'')"
          "\<lparr>GetCookie = (NS_OK, ''c''), GetName = (NS_OK, ''A''),
            GetTitle = (NS_ERROR_FAILURE, []), GetText = (NS_OK, ''hello''),
            GetTextClickable = (NS_OK, True), GetSource = (NS_ERROR_OTHER 5, []),
            GetRequireInteraction = (NS_OK, False), GetActions = (NS_OK, []),
            GetImageURL = (NS_OK, ''img.png'')\<rparr>"
          NS_ERROR_FAILURE]
  by (simp add: ShowAlert_def GetXmlStringForWindowsAlert_def MOZ_TRY_def field_results_def)

subsection \<open>Suppression\<close>

text \<open>
  C6. For every alert request (an alert that is not null), when the suppression flag is
  set \<open>ShowAlert\<close> returns \<open>NS_OK\<close> and leaves the state as it was: no entry is inserted,
  no handler is constructed and no handler is unregistered; so it does right after
  \<open>SetSuppressForScreenSharing True\<close>. Once the flag is cleared again, \<open>ShowAlert\<close> does
  its work again: when a getter fails it returns the code of the first that does and
  changes nothing; when the getters succeed it constructs a new handler, enters it
  under the name and submits its initialisation, and then, for an accepted submission,
  unregisters the old handler of the name if there was one and returns \<open>NS_OK\<close>, and for
  a failed one removes the entry, unregisters the new handler and returns the failure.
\<close>

theorem ShowAlert_suppressed_noop:
  "(mSuppressForScreenSharing st \<longrightarrow> ShowAlert (Some a) l rv st = (NS_OK, st))
   \<and> ShowAlert (Some a) l rv (snd (SetSuppressForScreenSharing True st))
       = (NS_OK, st\<lparr>mSuppressForScreenSharing := True\<rparr>)
   \<and> (find NS_FAILED (field_results a) = Some e \<longrightarrow>
        ShowAlert (Some a) l rv
            (snd (SetSuppressForScreenSharing False (snd (SetSuppressForScreenSharing True st))))
          = (e, st\<lparr>mSuppressForScreenSharing := False\<rparr>))
   \<and> (list_all (\<lambda>r. \<not> NS_FAILED r) (field_results a) \<longrightarrow>
        ShowAlert (Some a) l rv
            (snd (SetSuppressForScreenSharing False (snd (SetSuppressForScreenSharing True st))))
          = (if NS_FAILED rv
             then (rv, st\<lparr>mSuppressForScreenSharing := False,
                    mActiveHandlers := Remove (snd (GetName a))
                      (InsertOrUpdate (snd (GetName a)) (next_handler st) (mActiveHandlers st)),
                    next_handler := Suc (next_handler st),
                    trace := trace st @
                      [New_ToastNotificationHandler (next_handler st)
                  \<lparr>mAlertListener = l, mName = snd (GetName a), mCookie = snd (GetCookie a),
                   mTitle = snd (GetTitle a), mMsg = snd (GetText a),
                   mHostPort = snd (GetSource a),
                   mClickable = snd (GetTextClickable a),
                   mRequireInteraction = snd (GetRequireInteraction a),
                   mActions = snd (GetActions a)\<rparr>,
                       Table_InsertOrUpdate (snd (GetName a)) (next_handler st),
                       Call_InitAlertAsync (next_handler st),
                       Table_Remove (snd (GetName a)),
                       Call_UnregisterHandler (next_handler st)]\<rparr>)
             else (NS_OK, st\<lparr>mSuppressForScreenSharing := False,
                    mActiveHandlers :=
                      InsertOrUpdate (snd (GetName a)) (next_handler st) (mActiveHandlers st),
                    next_handler := Suc (next_handler st),
                    trace := trace st @
                      [New_ToastNotificationHandler (next_handler st)
                  \<lparr>mAlertListener = l, mName = snd (GetName a), mCookie = snd (GetCookie a),
                   mTitle = snd (GetTitle a), mMsg = snd (GetText a),
                   mHostPort = snd (GetSource a),
                   mClickable = snd (GetTextClickable a),
                   mRequireInteraction = snd (GetRequireInteraction a),
                   mActions = snd (GetActions a)\<rparr>,
                       Table_InsertOrUpdate (snd (GetName a)) (next_handler st),
                       Call_InitAlertAsync (next_handler st)] @
                      (case Get (mActiveHandlers st) (snd (GetName a)) of
                         None \<Rightarrow> [] | Some old \<Rightarrow> [Call_UnregisterHandler old])\<rparr>)))"
proof -
  let ?c = "st\<lparr>mSuppressForScreenSharing := False\<rparr>"
  have c: "(snd (SetSuppressForScreenSharing False (snd (SetSuppressForScreenSharing True st)))) = ?c"
    by (simp add: SetSuppressForScreenSharing_def)
  have n: "\<not> mSuppressForScreenSharing ?c" by simp
  have 1: "mSuppressForScreenSharing st \<longrightarrow> ShowAlert (Some a) l rv st = (NS_OK, st)"
    by (simp add: ShowAlert_def)
  have 2: "ShowAlert (Some a) l rv (snd (SetSuppressForScreenSharing True st))
             = (NS_OK, st\<lparr>mSuppressForScreenSharing := True\<rparr>)"
    by (simp add: ShowAlert_def SetSuppressForScreenSharing_def)
  have 3: "find NS_FAILED (field_results a) = Some e \<longrightarrow>
             ShowAlert (Some a) l rv ?c = (e, ?c)"
    by (simp add: ShowAlert_getter_fails)
  have 4: "list_all (\<lambda>r. \<not> NS_FAILED r) (field_results a) \<longrightarrow>
             ShowAlert (Some a) l rv ?c
               = (if NS_FAILED rv
                  then (rv, st\<lparr>mSuppressForScreenSharing := False,
                    mActiveHandlers := Remove (snd (GetName a))
                      (InsertOrUpdate (snd (GetName a)) (next_handler st) (mActiveHandlers st)),
                    next_handler := Suc (next_handler st),
                    trace := trace st @
                      [New_ToastNotificationHandler (next_handler st)
                  \<lparr>mAlertListener = l, mName = snd (GetName a), mCookie = snd (GetCookie a),
                   mTitle = snd (GetTitle a), mMsg = snd (GetText a),
                   mHostPort = snd (GetSource a),
                   mClickable = snd (GetTextClickable a),
                   mRequireInteraction = snd (GetRequireInteraction a),
                   mActions = snd (GetActions a)\<rparr>,
                       Table_InsertOrUpdate (snd (GetName a)) (next_handler st),
                       Call_InitAlertAsync (next_handler st),
                       Table_Remove (snd (GetName a)),
                       Call_UnregisterHandler (next_handler st)]\<rparr>)
                  else (NS_OK, st\<lparr>mSuppressForScreenSharing := False,
                    mActiveHandlers :=
                      InsertOrUpdate (snd (GetName a)) (next_handler st) (mActiveHandlers st),
                    next_handler := Suc (next_handler st),
                    trace := trace st @
                      [New_ToastNotificationHandler (next_handler st)
                  \<lparr>mAlertListener = l, mName = snd (GetName a), mCookie = snd (GetCookie a),
                   mTitle = snd (GetTitle a), mMsg = snd (GetText a),
                   mHostPort = snd (GetSource a),
                   mClickable = snd (GetTextClickable a),
                   mRequireInteraction = snd (GetRequireInteraction a),
                   mActions = snd (GetActions a)\<rparr>,
                       Table_InsertOrUpdate (snd (GetName a)) (next_handler st),
                       Call_InitAlertAsync (next_handler st)] @
                      (case Get (mActiveHandlers st) (snd (GetName a)) of
                         None \<Rightarrow> [] | Some old \<Rightarrow> [Call_UnregisterHandler old])\<rparr>))"
    using ShowAlert_past_getters [OF n, of a l rv] by simp
  from 1 2 3 4 show ?thesis by (simp only: c)
qed

theorem ShowAlert_suppressed_noop_witness:
  "mSuppressForScreenSharing
         \<lparr>mBackgroundThread = None, mSuppressForScreenSharing = True,
            mActiveHandlers = [(''A'', 0)], next_handler = 1, trace = []\<rparr>
   \<and> ShowAlert (Some \<lparr>GetCookie = (NS_OK, ''c''), GetName = (NS_OK, ''A''), GetTitle = (NS_OK, ''T2''),
            GetText = (NS_OK, ''hello''), GetTextClickable = (NS_OK, True),
            GetSource = (NS_OK, ''example.org''), GetRequireInteraction = (NS_OK, False),
            GetActions = (NS_OK, []), GetImageURL = (NS_OK, ''img.png'')\<rparr>) (Some 7) NS_OK
         \<lparr>mBackgroundThread = None, mSuppressForScreenSharing = True,
            mActiveHandlers = [(''A'', 0)], next_handler = 1, trace = []\<rparr>
       = (NS_OK, \<lparr>mBackgroundThread = None, mSuppressForScreenSharing = True,
            mActiveHandlers = [(''A'', 0)], next_handler = 1, trace = []\<rparr>)
   \<and> list_all (\<lambda>r. \<not> NS_FAILED r) (field_results
           \<lparr>GetCookie = (NS_OK, ''c''), GetName = (NS_OK, ''A''), GetTitle = (NS_OK, ''T2''),
            GetText = (NS_OK, ''hello''), GetTextClickable = (NS_OK, True),
            GetSource = (NS_OK, ''example.org''), GetRequireInteraction = (NS_OK, False),
            GetActions = (NS_OK, []), GetImageURL = (NS_OK, ''img.png'')\<rparr>)
   \<and> ShowAlert (Some \<lparr>GetCookie = (NS_OK, ''c''), GetName = (NS_OK, ''A''), GetTitle = (NS_OK, ''T2''),
            GetText = (NS_OK, ''hello''), GetTextClickable = (NS_OK, True),
            GetSource = (NS_OK, ''example.org''), GetRequireInteraction = (NS_OK, False),
            GetActions = (NS_OK, []), GetImageURL = (NS_OK, ''img.png'')\<rparr>) (Some 7) NS_OK
         (snd (SetSuppressForScreenSharing False (snd (SetSuppressForScreenSharing True
         \<lparr>mBackgroundThread = None, mSuppressForScreenSharing = True,
            mActiveHandlers = [(''A'', 0)], next_handler = 1, trace = []\<rparr>))))
       = (NS_OK, \<lparr>mBackgroundThread = None, mSuppressForScreenSharing = False,
            mActiveHandlers = [(''A'', 1)], next_handler = 2, trace = [New_ToastNotificationHandler 1
                \<lparr>mAlertListener = Some 7, mName = ''A'', mCookie = ''c'', mTitle = ''T2'',
                 mMsg = ''hello'', mHostPort = ''example.org'', mClickable = True,
                 mRequireInteraction = False, mActions = []\<rparr>,
              Table_InsertOrUpdate ''A'' 1, Call_InitAlertAsync 1, Call_UnregisterHandler 0]\<rparr>)
   \<and> find NS_FAILED (field_results
           \<lparr>GetCookie = (NS_OK, ''c''), GetName = (NS_OK, ''A''),
            GetTitle = (NS_ERROR_FAILURE, []), GetText = (NS_OK, ''hello''),
            GetTextClickable = (NS_OK, True), GetSource = (NS_ERROR_OTHER 5, []),
            GetRequireInteraction = (NS_OK, False), GetActions = (NS_OK, []),
            GetImageURL = (NS_OK, ''img.png'')\<rparr>) = Some NS_ERROR_FAILURE
   \<and> ShowAlert (Some \<lparr>GetCookie = (NS_OK, ''c''), GetName = (NS_OK, ''A''),
            GetTitle = (NS_ERROR_FAILURE, []), GetText = (NS_OK, ''hello''),
            GetTextClickable = (NS_OK, True), GetSource = (NS_ERROR_OTHER 5, []),
            GetRequireInteraction = (NS_OK, False), GetActions = (NS_OK, []),
            GetImageURL = (NS_OK, ''img.png'')\<rparr>) (Some 7) NS_OK
         (snd (SetSuppressForScreenSharing False (snd (SetSuppressForScreenSharing True
         \<lparr>mBackgroundThread = None, mSuppressForScreenSharing = True,
            mActiveHandlers = [(''A'', 0)], next_handler = 1, trace = []\<rparr>))))
       = (NS_ERROR_FAILURE, \<lparr>mBackgroundThread = None, mSuppressForScreenSharing = False,
            mActiveHandlers = [(''A'', 0)], next_handler = 1, trace = []\<rparr>)"
  using ShowAlert_suppressed_noop [of
          "\<lparr>mBackgroundThread = None, mSuppressForScreenSharing = True,
            mActiveHandlers = [(''A'', 0)], next_handler = 1, trace = []\<rparr>"
          "\<lparr>GetCookie = (NS_OK, ''c''), GetName = (NS_OK, ''A''), GetTitle = (NS_OK, ''T2''),
            GetText = (NS_OK, ''hello''), GetTextClickable = (NS_OK, True),
            GetSource = (NS_OK, ''example.org''), GetRequireInteraction = (NS_OK, False),
            GetActions = (NS_OK, []), GetImageURL = (NS_OK, ''img.png'')\<rparr>"
          "Some 7" NS_OK NS_ERROR_FAILURE]
        ShowAlert_suppressed_noop [of
          "\<lparr>mBackgroundThread = None, mSuppressForScreenSharing = True,
            mActiveHandlers = [(''A'', 0)], next_handler = 1, trace = []\<rparr>"
          "\<lparr>GetCookie = (NS_OK, ''c''), GetName = (NS_OK, ''A''),
            GetTitle = (NS_ERROR_FAILURE, []), GetText = (NS_OK, ''hello''),
            GetTextClickable = (NS_OK, True), GetSource = (NS_ERROR_OTHER 5, []),
            GetRequireInteraction = (NS_OK, False), GetActions = (NS_OK, []),
            GetImageURL = (NS_OK, ''img.png'')\<rparr>"
          "Some 7" NS_OK NS_ERROR_FAILURE]
  by (simp add: field_results_def SetSuppressForScreenSharing_def)

subsection \<open>Initialisation\<close>

text \<open>
  C8, as amended. \<open>Init\<close> fails with \<open>NS_ERROR_NOT_IMPLEMENTED\<close> whenever the system is
  older than Windows 8, whether or not the test marker \<open>XPCSHELL_TEST_PROFILE_DIR\<close> is
  in the environment. On Windows 8 or later it fails with \<open>NS_ERROR_NOT_IMPLEMENTED\<close>
  when the application user model id cannot be obtained and the marker is absent.
  Otherwise it goes on to create the background thread: it returns the failure code of
  the creation if that fails, and else registers for \<open>quit-application\<close> with the
  observer service, if there is one, and returns \<open>NS_OK\<close>.
\<close>

theorem Init_platform_checks:
  "(\<not> IsWin8OrLater sys \<longrightarrow> Init sys st = (NS_ERROR_NOT_IMPLEMENTED, st))
   \<and> (IsWin8OrLater sys \<and> GetAppUserModelID sys = None
        \<and> PR_GetEnv sys ''XPCSHELL_TEST_PROFILE_DIR'' = None \<longrightarrow>
        Init sys st = (NS_ERROR_NOT_IMPLEMENTED, st))
   \<and> (IsWin8OrLater sys
        \<and> (GetAppUserModelID sys \<noteq> None \<or> PR_GetEnv sys ''XPCSHELL_TEST_PROFILE_DIR'' \<noteq> None) \<longrightarrow>
        fst (Init sys st)
          = (if NS_FAILED (fst (NS_NewNamedThread sys)) then fst (NS_NewNamedThread sys) else NS_OK)
        \<and> mBackgroundThread (snd (Init sys st)) = snd (NS_NewNamedThread sys)
        \<and> trace (snd (Init sys st)) = trace st @ Call_NewNamedThread ''ToastBgThread'' #
             (if \<not> NS_FAILED (fst (NS_NewNamedThread sys)) \<and> GetObserverService sys
              then [Call_AddObserver ''quit-application''] else []))"
  by (auto simp: Init_def Let_def emit_def)

theorem Init_platform_checks_witness:
  "Init \<lparr>IsWin8OrLater = False, GetAppUserModelID = Some ''Mozilla.Firefox'',
            environ = [],
            NS_NewNamedThread = (NS_OK, Some 1), GetObserverService = True\<rparr>
        \<lparr>mBackgroundThread = None, mSuppressForScreenSharing = False,
            mActiveHandlers = [], next_handler = 0, trace = []\<rparr>
     = (NS_ERROR_NOT_IMPLEMENTED,
        \<lparr>mBackgroundThread = None, mSuppressForScreenSharing = False,
            mActiveHandlers = [], next_handler = 0, trace = []\<rparr>)
   \<and> PR_GetEnv \<lparr>IsWin8OrLater = True, GetAppUserModelID = None,
            environ = [],
            NS_NewNamedThread = (NS_OK, Some 1), GetObserverService = True\<rparr>
        ''XPCSHELL_TEST_PROFILE_DIR'' = None
   \<and> Init \<lparr>IsWin8OrLater = True, GetAppUserModelID = None,
            environ = [],
            NS_NewNamedThread = (NS_OK, Some 1), GetObserverService = True\<rparr>
        \<lparr>mBackgroundThread = None, mSuppressForScreenSharing = False,
            mActiveHandlers = [], next_handler = 0, trace = []\<rparr>
     = (NS_ERROR_NOT_IMPLEMENTED,
        \<lparr>mBackgroundThread = None, mSuppressForScreenSharing = False,
            mActiveHandlers = [], next_handler = 0, trace = []\<rparr>)
   \<and> PR_GetEnv \<lparr>IsWin8OrLater = True, GetAppUserModelID = None,
            environ = [(''XPCSHELL_TEST_PROFILE_DIR'', ''/tmp/profile'')],
            NS_NewNamedThread = (NS_OK, Some 1), GetObserverService = True\<rparr>
        ''XPCSHELL_TEST_PROFILE_DIR'' \<noteq> None
   \<and> Init \<lparr>IsWin8OrLater = True, GetAppUserModelID = None,
            environ = [(''XPCSHELL_TEST_PROFILE_DIR'', ''/tmp/profile'')],
            NS_NewNamedThread = (NS_OK, Some 1), GetObserverService = True\<rparr>
        \<lparr>mBackgroundThread = None, mSuppressForScreenSharing = False,
            mActiveHandlers = [], next_handler = 0, trace = []\<rparr>
     = (NS_OK,
        \<lparr>mBackgroundThread = Some 1, mSuppressForScreenSharing = False,
            mActiveHandlers = [], next_handler = 0, trace = [Call_NewNamedThread ''ToastBgThread'', Call_AddObserver ''quit-application'']\<rparr>)"
  using Init_platform_checks [of
          "\<lparr>IsWin8OrLater = False, GetAppUserModelID = Some ''Mozilla.Firefox'',
            environ = [],
            NS_NewNamedThread = (NS_OK, Some 1), GetObserverService = True\<rparr>"
          "\<lparr>mBackgroundThread = None, mSuppressForScreenSharing = False,
            mActiveHandlers = [], next_handler = 0, trace = []\<rparr>"]
        Init_platform_checks [of
          "\<lparr>IsWin8OrLater = True, GetAppUserModelID = None,
            environ = [],
            NS_NewNamedThread = (NS_OK, Some 1), GetObserverService = True\<rparr>"
          "\<lparr>mBackgroundThread = None, mSuppressForScreenSharing = False,
            mActiveHandlers = [], next_handler = 0, trace = []\<rparr>"]
        Init_platform_checks [of
          "\<lparr>IsWin8OrLater = True, GetAppUserModelID = None,
            environ = [(''XPCSHELL_TEST_PROFILE_DIR'', ''/tmp/profile'')],
            NS_NewNamedThread = (NS_OK, Some 1), GetObserverService = True\<rparr>"
          "\<lparr>mBackgroundThread = None, mSuppressForScreenSharing = False,
            mActiveHandlers = [], next_handler = 0, trace = []\<rparr>"]
  by (simp add: Init_def PR_GetEnv_def Let_def emit_def)

text \<open>
  C8 as it is stated fails on a system older than Windows 8 whose environment has the
  test marker: \<open>Init\<close> fails all the same, and no background thread is created.
\<close>

theorem Init_escape_hatch_counterexample:
  "PR_GetEnv \<lparr>IsWin8OrLater = False, GetAppUserModelID = Some ''Mozilla.Firefox'',
            environ = [(''XPCSHELL_TEST_PROFILE_DIR'', ''/tmp/profile'')],
            NS_NewNamedThread = (NS_OK, Some 1), GetObserverService = True\<rparr>
        ''XPCSHELL_TEST_PROFILE_DIR'' = Some ''/tmp/profile''
   \<and> Init \<lparr>IsWin8OrLater = False, GetAppUserModelID = Some ''Mozilla.Firefox'',
            environ = [(''XPCSHELL_TEST_PROFILE_DIR'', ''/tmp/profile'')],
            NS_NewNamedThread = (NS_OK, Some 1), GetObserverService = True\<rparr>
        \<lparr>mBackgroundThread = None, mSuppressForScreenSharing = False,
            mActiveHandlers = [], next_handler = 0, trace = []\<rparr>
     = (NS_ERROR_NOT_IMPLEMENTED,
        \<lparr>mBackgroundThread = None, mSuppressForScreenSharing = False,
            mActiveHandlers = [], next_handler = 0, trace = []\<rparr>)"
  by (simp add: Init_def PR_GetEnv_def)

subsection \<open>Rendering only\<close>

lemma GetXml_trace:
  "\<exists>evs. trace (snd (snd (GetXmlStringForWindowsAlert aAlert xml st))) = trace st @ evs
     \<and> list_all (\<lambda>e. case e of
                 New_ToastNotificationHandler h args \<Rightarrow> mAlertListener args = None
               | Call_CreateToastXmlString h url \<Rightarrow> True
               | _ \<Rightarrow> False) evs"
  by (auto simp: GetXmlStringForWindowsAlert_def MOZ_TRY_def new_ToastNotificationHandler_def
        CreateToastXmlString_def emit_def Let_def split: option.splits)

lemma GetXml_table:
  "mActiveHandlers (snd (snd (GetXmlStringForWindowsAlert aAlert xml st))) = mActiveHandlers st"
  by (auto simp: GetXmlStringForWindowsAlert_def MOZ_TRY_def new_ToastNotificationHandler_def
        CreateToastXmlString_def emit_def Let_def split: option.splits)

text \<open>
  C9. For every state and every sequence of calls of \<open>GetXmlStringForWindowsAlert\<close>, each
  with its alert (or null) and with what the handler's markup call returns, the table
  after the calls is the table before them, whatever it held, and the events of the
  calls are only constructions of handlers without a listener and calls of
  \<open>CreateToastXmlString\<close>: no entry is inserted or removed and no handler is unregistered.
\<close>

theorem GetXmlStringForWindowsAlert_leaves_table:
  "mActiveHandlers (foldl (\<lambda>s c. snd (snd (GetXmlStringForWindowsAlert (fst c) (snd c) s))) st calls)
     = mActiveHandlers st
   \<and> (\<exists>evs. trace (foldl (\<lambda>s c. snd (snd (GetXmlStringForWindowsAlert (fst c) (snd c) s))) st calls)
              = trace st @ evs
          \<and> list_all (\<lambda>e. case e of
                 New_ToastNotificationHandler h args \<Rightarrow> mAlertListener args = None
               | Call_CreateToastXmlString h url \<Rightarrow> True
               | _ \<Rightarrow> False) evs)"
proof (induction calls arbitrary: st)
  case Nil
  then show ?case by simp
next
  case (Cons c calls)
  let ?st1 = "snd (snd (GetXmlStringForWindowsAlert (fst c) (snd c) st))"
  let ?run = "foldl (\<lambda>s c. snd (snd (GetXmlStringForWindowsAlert (fst c) (snd c) s)))"
  let ?ok = "list_all (\<lambda>e. case e of
                 New_ToastNotificationHandler h args \<Rightarrow> mAlertListener args = None
               | Call_CreateToastXmlString h url \<Rightarrow> True
               | _ \<Rightarrow> False)"
  from GetXml_trace [of "fst c" "snd c" st] obtain evs1 where
    e1: "trace ?st1 = trace st @ evs1" and l1: "?ok evs1" by blast
  from Cons.IH [of ?st1] obtain evs2 where
    t: "mActiveHandlers (?run ?st1 calls) = mActiveHandlers ?st1" and
    e2: "trace (?run ?st1 calls) = trace ?st1 @ evs2" and l2: "?ok evs2" by blast
  have "trace (?run st (c # calls)) = trace st @ (evs1 @ evs2)"
    using e1 e2 by simp
  moreover have "?ok (evs1 @ evs2)"
    using l1 l2 by simp
  moreover have "mActiveHandlers (?run st (c # calls)) = mActiveHandlers st"
    using t GetXml_table [of "fst c" "snd c" st] by simp
  ultimately show ?case by blast
qed

theorem GetXmlStringForWindowsAlert_leaves_table_witness:
  "foldl (\<lambda>s c. snd (snd (GetXmlStringForWindowsAlert (fst c) (snd c) s)))
      \<lparr>mBackgroundThread = None, mSuppressForScreenSharing = False,
            mActiveHandlers = [(''A'', 0)], next_handler = 1, trace = []\<rparr>
      [(Some \<lparr>GetCookie = (NS_OK, ''c''), GetName = (NS_OK, ''A''), GetTitle = (NS_OK, ''T2''),
            GetText = (NS_OK, ''hello''), GetTextClickable = (NS_OK, True),
            GetSource = (NS_OK, ''example.org''), GetRequireInteraction = (NS_OK, False),
            GetActions = (NS_OK, []), GetImageURL = (NS_OK, ''img.png'')\<rparr>, (NS_OK, ''<toast/>'')),
       (None, (NS_OK, ''<toast/>''))]
   = \<lparr>mBackgroundThread = None, mSuppressForScreenSharing = False,
            mActiveHandlers = [(''A'', 0)], next_handler = 2, trace = [New_ToastNotificationHandler 1
                \<lparr>mAlertListener = None, mName = ''A'', mCookie = ''c'', mTitle = ''T2'',
                 mMsg = ''hello'', mHostPort = ''example.org'', mClickable = True,
                 mRequireInteraction = False, mActions = []\<rparr>,
              Call_CreateToastXmlString 1 ''img.png'']\<rparr>"
  using GetXmlStringForWindowsAlert_leaves_table [of
      "\<lparr>mBackgroundThread = None, mSuppressForScreenSharing = False,
            mActiveHandlers = [(''A'', 0)], next_handler = 1, trace = []\<rparr>"
      "[(Some \<lparr>GetCookie = (NS_OK, ''c''), GetName = (NS_OK, ''A''), GetTitle = (NS_OK, ''T2''),
            GetText = (NS_OK, ''hello''), GetTextClickable = (NS_OK, True),
            GetSource = (NS_OK, ''example.org''), GetRequireInteraction = (NS_OK, False),
            GetActions = (NS_OK, []), GetImageURL = (NS_OK, ''img.png'')\<rparr>, (NS_OK, ''<toast/>'')),
        (None, (NS_OK, ''<toast/>''))]"]
  by (simp add: GetXmlStringForWindowsAlert_def MOZ_TRY_def new_ToastNotificationHandler_def
        CreateToastXmlString_def emit_def)

subsection \<open>The well-formed states are closed under the operations\<close>

lemma wf_state_empty: "mActiveHandlers st = [] \<Longrightarrow> wf_state st"
  by (simp add: wf_state_def)

lemma set_InsertOrUpdate:
  "set (InsertOrUpdate k v t) \<subseteq> insert (k, v) (set t)"
  by (induction k v t rule: InsertOrUpdate.induct) auto

lemma distinct_fst_InsertOrUpdate:
  "distinct (map fst t) \<Longrightarrow> distinct (map fst (InsertOrUpdate k v t))"
proof (induction k v t rule: InsertOrUpdate.induct)
  case (1 k v)
  then show ?case by simp
next
  case (2 k v k' v' t)
  have "fst ` set (InsertOrUpdate k v t) \<subseteq> insert k (fst ` set t)"
    using set_InsertOrUpdate [of k v t] by auto
  with 2 show ?case by auto
qed

lemma distinct_snd_InsertOrUpdate:
  "distinct (map snd t) \<Longrightarrow> v \<notin> snd ` set t \<Longrightarrow> distinct (map snd (InsertOrUpdate k v t))"
proof (induction k v t rule: InsertOrUpdate.induct)
  case (1 k v)
  then show ?case by simp
next
  case (2 k v k' v' t)
  have "snd ` set (InsertOrUpdate k v t) \<subseteq> insert v (snd ` set t)"
    using set_InsertOrUpdate [of k v t] by auto
  with 2 show ?case by auto
qed

lemma wf_state_insert:
  assumes "wf_state st"
  shows "wf_state (st\<lparr>mActiveHandlers := InsertOrUpdate k (next_handler st) (mActiveHandlers st),
                      next_handler := Suc (next_handler st), trace := tr\<rparr>)"
proof -
  have fresh: "\<forall>e \<in> set (mActiveHandlers st). snd e < next_handler st"
    using assms by (simp add: wf_state_def list_all_iff)
  then have "next_handler st \<notin> snd ` set (mActiveHandlers st)" by auto
  moreover have "\<forall>e \<in> set (InsertOrUpdate k (next_handler st) (mActiveHandlers st)).
                    snd e < Suc (next_handler st)"
    using set_InsertOrUpdate [of k "next_handler st" "mActiveHandlers st"] fresh
    by (auto simp: less_Suc_eq)
  ultimately show ?thesis
    using assms
    by (simp add: wf_state_def list_all_iff distinct_fst_InsertOrUpdate distinct_snd_InsertOrUpdate)
qed

lemma wf_state_remove:
  assumes "wf_state st" "next_handler st \<le> n"
  shows "wf_state (st\<lparr>mActiveHandlers := Remove k (mActiveHandlers st),
                      next_handler := n, trace := tr\<rparr>)"
  using assms
  by (auto simp: wf_state_def list_all_iff Remove_filter distinct_map_filter)

lemma wf_state_trace: "wf_state (st\<lparr>trace := tr\<rparr>) = wf_state st"
  by (simp add: wf_state_def)

lemma wf_state_ShowAlert:
  assumes "wf_state st"
  shows "wf_state (snd (ShowAlert aAlert l rv st))"
proof (cases aAlert)
  case None
  then show ?thesis using assms by (simp add: ShowAlert_def)
next
  case (Some a)
  show ?thesis
  proof (cases "mSuppressForScreenSharing st")
    case True
    then show ?thesis using assms Some by (simp add: ShowAlert_def)
  next
    case False
    show ?thesis
    proof (cases "find NS_FAILED (field_results a)")
      case (Some e)
      then show ?thesis using assms \<open>aAlert = Some a\<close> by (simp add: ShowAlert_getter_fails)
    next
      case None
      then have ok: "list_all (\<lambda>r. \<not> NS_FAILED r) (field_results a)" by (simp add: find_cases)
      show ?thesis
      proof (cases "NS_FAILED rv")
        case True
        then show ?thesis
          using wf_state_remove [OF assms, where n = "Suc (next_handler st)" and k = "snd (GetName a)"]
          by (simp add: \<open>aAlert = Some a\<close> ShowAlert_past_getters [OF False ok] Remove_InsertOrUpdate)
      next
        case f: False
        then show ?thesis
          using wf_state_insert [OF assms, where k = "snd (GetName a)"]
          by (simp add: \<open>aAlert = Some a\<close> ShowAlert_past_getters [OF False ok])
      qed
    qed
  qed
qed

lemma wf_state_CloseAlert: "wf_state st \<Longrightarrow> wf_state (snd (CloseAlert n st))"
  using wf_state_remove [where st = st and n = "next_handler st" and k = n]
  by (auto simp: CloseAlert_def UnregisterHandler_def table_Remove_def emit_def split: option.splits)

lemma wf_state_RemoveHandler: "wf_state st \<Longrightarrow> wf_state (RemoveHandler n h st)"
  using wf_state_remove [where st = st and n = "next_handler st" and k = n]
  by (auto simp: RemoveHandler_def UnregisterHandler_def table_Remove_def emit_def split: option.splits)

lemma wf_state_Observe: "wf_state (snd (Observe aSubject aTopic aData st))"
  by (simp add: wf_state_def Observe_def Observe_loop_table)

lemma wf_state_GetXml:
  "wf_state st \<Longrightarrow> wf_state (snd (snd (GetXmlStringForWindowsAlert aAlert xml st)))"
  by (auto simp: GetXmlStringForWindowsAlert_def MOZ_TRY_def new_ToastNotificationHandler_def
        CreateToastXmlString_def emit_def Let_def wf_state_def list_all_iff less_Suc_eq
        split: option.splits)

end
